theory Spec2Isabelle
  imports Main
begin

section \<open>The converter controller of MuseScore: data\<close>

text \<open>
  This theory embeds \<^verbatim>\<open>src/converter/internal/convertercontroller.cpp\<close>: the batch-job
  parser (\<^verbatim>\<open>parseBatchJob\<close>), the single-job dispatcher (\<^verbatim>\<open>fileConvert\<close>), the
  per-part, page-by-page and whole-document conversions and the batch runner
  (\<^verbatim>\<open>batchConvert\<close>). Paths and strings are \<^typ>\<open>string\<close>. Logging
  (\<^verbatim>\<open>LOGI\<close>, \<^verbatim>\<open>LOGE\<close>, \<^verbatim>\<open>TRACEFUNC\<close>) has no effect on results and is left out.
\<close>

subsection \<open>Results\<close>

text \<open>
  \<^verbatim>\<open>Ret\<close> is a code with a text. The codes are those of \<^verbatim>\<open>Ret::Code\<close> and of the
  converter's \<^verbatim>\<open>Err\<close> that the controller names; \<open>OtherCode\<close> stands for every other
  code a collaborator can return. A \<^verbatim>\<open>Ret\<close> converts to true exactly when its code is
  \<open>Ok\<close>.
\<close>

datatype errc =
    Ok
  | NotSupported
  | UnknownError
  | BatchJobFileFailedOpen
  | BatchJobFileFailedParse
  | ConvertTypeUnknown
  | InFileFailedLoad
  | OutFileFailedOpen
  | OutFileFailedWrite
  | ConvertFailed
  | OtherCode nat

record ret =
  code :: errc
  msg :: string

definition success :: "ret \<Rightarrow> bool" where
  "success r \<longleftrightarrow> code r = Ok"

subsection \<open>JSON values\<close>

text \<open>
  \<^verbatim>\<open>QJsonValue\<close>: null, bool, number, string, array, object, and the undefined value
  that indexing a missing key returns. The parser never reads a number, so numbers are
  kept as integers. An object is the list of its members as the JSON parser delivers
  them, one per key; a key is looked up with \<open>map_of\<close>.
\<close>

datatype json =
    JNull
  | JBool bool
  | JDouble int
  | JString string
  | JArray "json list"
  | JObject "(string \<times> json) list"
  | JUndefined

fun isString :: "json \<Rightarrow> bool" where
  "isString (JString _) = True"
| "isString _ = False"

fun isArray :: "json \<Rightarrow> bool" where
  "isArray (JArray _) = True"
| "isArray _ = False"

text \<open>The conversions return the default (empty) value on a value of another kind.\<close>

fun toString :: "json \<Rightarrow> string" where
  "toString (JString s) = s"
| "toString _ = []"

fun toArray :: "json \<Rightarrow> json list" where
  "toArray (JArray xs) = xs"
| "toArray _ = []"

fun toObject :: "json \<Rightarrow> (string \<times> json) list" where
  "toObject (JObject kvs) = kvs"
| "toObject _ = []"

text \<open>\<^verbatim>\<open>QJsonValue::operator[](key)\<close>: the member of an object, undefined otherwise.\<close>

definition atKey :: "json \<Rightarrow> string \<Rightarrow> json" where
  "atKey v k = (case map_of (toObject v) k of Some x \<Rightarrow> x | None \<Rightarrow> JUndefined)"

record jsonParseError =
  noError :: bool
  errorString :: string

subsection \<open>Jobs, documents, files, writer options\<close>

text \<open>\<^verbatim>\<open>TransposeOptions\<close> is an opaque payload of the notation module.\<close>

datatype transposeOptions = TransposeOptions "int list"

record job =
  job_in :: string
  job_out :: string
  transposeOptions :: "transposeOptions option"

text \<open>
  Of a loaded document the controller reads the name and the page count of a notation,
  and the excerpts (parts) of the master notation, each through its notation. These are
  the values the loader delivered: what a transposition or an extension changes inside
  the document is not part of the model.
\<close>

record INotation =
  name :: string
  pages :: nat

record IMasterNotation =
  mnotation :: INotation
  excerpts :: "INotation list"

record INotationProject =
  projectMasterNotation :: IMasterNotation

record ioFile =
  filePath :: string
  meta :: "(string \<times> string) list"

text \<open>
  The options of a writer call: the keys the controller sets, and their values. Of the
  unit types the controller names \<open>PER_PART\<close> only.
\<close>

datatype unitType = PER_PAGE | PER_PART

datatype optionKey = UNIT_TYPE | PAGE_NUMBER

datatype val = ValInt int | ValUnitType unitType

type_synonym options = "(optionKey \<times> val) list"

subsection \<open>Effects\<close>

text \<open>
  Every call of a collaborator is recorded as an event, with its outcome where the
  controller looks at it, and stamped with the process-wide current project at the time
  of the call. The state of the process is the current-project pointer of the global
  context and the events so far.
\<close>

datatype event =
    NewProject bool
  | Load string string bool bool
  | ClearTrackInputParams
  | SetActiveSoundProfile string
  | ApplyTranspose transposeOptions bool
  | SetCurrentProject "INotationProject option"
  | Perform string bool
  | FileOpen string bool
  | Write nat INotation ioFile options bool
  | FileClose string
  | Save string bool
  | ProgressStart
  | Progress nat nat string
  | ProgressFinish ret

record state =
  currentProject :: "INotationProject option"
  trace :: "(INotationProject option \<times> event) list"

definition emit :: "event \<Rightarrow> state \<Rightarrow> state" where
  "emit e s = s\<lparr>trace := trace s @ [(currentProject s, e)]\<rparr>"

definition setCurrentProject :: "INotationProject option \<Rightarrow> state \<Rightarrow> state" where
  "setCurrentProject p s = (emit (SetCurrentProject p) s)\<lparr>currentProject := p\<rparr>"

subsection \<open>Collaborators\<close>

text \<open>
  The controller reaches everything else through interfaces declared outside this file.
  They are the fields of an environment, so every theorem below holds for all of them:
  the path helpers of \<^verbatim>\<open>io\<close>, the string formatting of \<^verbatim>\<open>String\<close> and \<^verbatim>\<open>Ret\<close>, the file
  reader and JSON parser, the transpose-option parser, the writer registry, the project
  creator and loader, the transposition, the extension runner, file opening, the
  writers and the project's own save. A stateful collaborator sees the state (the
  current project and all earlier events), so its answer may depend on the history.
\<close>

record env =
  io_suffix :: "string \<Rightarrow> string"
  io_completeBasename :: "string \<Rightarrow> string"
  io_dirpath :: "string \<Rightarrow> string"
  fromNativeSeparators :: "string \<Rightarrow> string"
  arg :: "string \<Rightarrow> string \<Rightarrow> string"
  argNum :: "string \<Rightarrow> nat \<Rightarrow> string"
  retToString :: "ret \<Rightarrow> string"
  errText :: "errc \<Rightarrow> string"
  readAll :: "string \<Rightarrow> string option"
  fromJson :: "string \<Rightarrow> jsonParseError \<times> json"
  parseTransposeOptions :: "(string \<times> json) list \<Rightarrow> ret \<times> transposeOptions"
  writers :: "string \<Rightarrow> nat option"
  newProject :: "state \<Rightarrow> INotationProject option"
  load :: "state \<Rightarrow> INotationProject \<Rightarrow> string \<Rightarrow> string \<Rightarrow> bool \<Rightarrow> ret \<times> INotationProject"
  applyTranspose :: "state \<Rightarrow> INotation \<Rightarrow> transposeOptions \<Rightarrow> ret"
  isValid :: "string \<Rightarrow> bool"
  perform :: "state \<Rightarrow> string \<Rightarrow> ret"
  fileOpen :: "state \<Rightarrow> string \<Rightarrow> bool"
  writerWrite :: "state \<Rightarrow> nat \<Rightarrow> INotation \<Rightarrow> ioFile \<Rightarrow> options \<Rightarrow> ret"
  save :: "state \<Rightarrow> INotationProject \<Rightarrow> string \<Rightarrow> ret"

definition make_ret :: "env \<Rightarrow> errc \<Rightarrow> ret" where
  "make_ret env c = \<lparr>code = c, msg = errText env c\<rparr>"

definition make_ret_text :: "errc \<Rightarrow> string \<Rightarrow> ret" where
  "make_ret_text c t = \<lparr>code = c, msg = t\<rparr>"

section \<open>The batch-job parser\<close>

definition correctUserInputPath :: "env \<Rightarrow> string \<Rightarrow> string" where
  "correctUserInputPath env path = fromNativeSeparators env path"

text \<open>The body of the loop over the elements of an array-valued \<^verbatim>\<open>out\<close>.\<close>

definition partJob :: "env \<Rightarrow> job \<Rightarrow> json \<Rightarrow> job" where
  "partJob env job outItem =
     (if isString outItem then
        job\<lparr>job_out := correctUserInputPath env (toString outItem)\<rparr>
      else if isArray outItem \<and> length (toArray outItem) = 2 then
        (let partOutArray = toArray outItem;
             prefix = correctUserInputPath env (toString (partOutArray ! 0));
             suffix = toString (partOutArray ! 1)
         in job\<lparr>job_out := prefix @ ''*'' @ suffix\<rparr>)
      else job)"

fun partJobs :: "env \<Rightarrow> job \<Rightarrow> json list \<Rightarrow> job list \<Rightarrow> job list" where
  "partJobs env job [] rv_val = rv_val"
| "partJobs env job (outItem # outArray) rv_val =
     partJobs env job outArray (rv_val @ [partJob env job outItem])"

text \<open>
  The loop over the job objects. \<^verbatim>\<open>RetVal<BatchJob>\<close> is the pair of its \<^verbatim>\<open>ret\<close> and its
  \<^verbatim>\<open>val\<close>: when a transpose object fails to parse the loop returns at once, with the
  parser's error as \<^verbatim>\<open>ret\<close> and, in \<^verbatim>\<open>val\<close>, the jobs pushed so far.
\<close>

fun parseJobs :: "env \<Rightarrow> json list \<Rightarrow> job list \<Rightarrow> ret \<times> job list" where
  "parseJobs env [] rv_val = (make_ret env Ok, rv_val)"
| "parseJobs env (obj # arr) rv_val =
     (let job0 = \<lparr>job_in = correctUserInputPath env (toString (atKey obj ''in'')),
                  job_out = [], transposeOptions = None\<rparr>;
          transposeOptionsObj = toObject (atKey obj ''transpose'');
          parsed = parseTransposeOptions env transposeOptionsObj
      in if transposeOptionsObj \<noteq> [] \<and> \<not> success (fst parsed) then (fst parsed, rv_val)
         else
           (let job = (if transposeOptionsObj \<noteq> []
                       then job0\<lparr>transposeOptions := Some (snd parsed)\<rparr> else job0);
                outValue = atKey obj ''out''
            in if isString outValue then
                 parseJobs env arr
                   (rv_val @ [job\<lparr>job_out := correctUserInputPath env (toString outValue)\<rparr>])
               else if isArray outValue then
                 parseJobs env arr (partJobs env job (toArray outValue) rv_val)
               else parseJobs env arr rv_val))"

definition parseBatchJob :: "env \<Rightarrow> string \<Rightarrow> ret \<times> job list" where
  "parseBatchJob env batchJobFile =
     (case readAll env batchJobFile of
        None \<Rightarrow> (make_ret env BatchJobFileFailedOpen, [])
      | Some data \<Rightarrow>
          (let err = fst (fromJson env data); doc = snd (fromJson env data)
           in if \<not> noError err \<or> \<not> isArray doc then
                (make_ret_text BatchJobFileFailedParse (errorString err), [])
              else parseJobs env (toArray doc) []))"

section \<open>Writing one file\<close>

text \<open>
  \<^verbatim>\<open>QString::replace\<close> with the one-character string \<^verbatim>\<open>"*"\<close> as the text to replace:
  every occurrence is replaced.
\<close>

definition replaceChar :: "string \<Rightarrow> char \<Rightarrow> string \<Rightarrow> string" where
  "replaceChar s old new = concat (map (\<lambda>c. if c = old then new else [c]) s)"

text \<open>
  The controller writes every output file by the same sequence: open the file for
  writing (\<^verbatim>\<open>OutFileFailedOpen\<close> when that fails), set its meta data, call the writer
  (\<^verbatim>\<open>OutFileFailedWrite\<close> when that fails, whatever the writer's own error), close the
  file. The sequence stands in \<^verbatim>\<open>convertByExtension\<close>, \<^verbatim>\<open>convertPageByPage\<close>,
  \<^verbatim>\<open>convertFullNotation\<close>, \<^verbatim>\<open>convertScorePartsToPdf\<close> and \<^verbatim>\<open>convertScorePartsToMp3\<close>.
\<close>

definition openWriteClose ::
  "env \<Rightarrow> nat \<Rightarrow> INotation \<Rightarrow> string \<Rightarrow> (string \<times> string) list \<Rightarrow> options \<Rightarrow> state
     \<Rightarrow> ret \<times> state" where
  "openWriteClose env writer notation path fileMeta opts s =
     (if \<not> fileOpen env s path then
        (make_ret env OutFileFailedOpen, emit (FileOpen path False) s)
      else
        (let s1 = emit (FileOpen path True) s;
             f = \<lparr>filePath = path, meta = fileMeta\<rparr>;
             r = writerWrite env s1 writer notation f opts
         in if \<not> success r then
              (make_ret env OutFileFailedWrite, emit (Write writer notation f opts False) s1)
            else
              (make_ret env Ok,
               emit (FileClose path) (emit (Write writer notation f opts True) s1))))"

section \<open>The conversions\<close>

definition PDF_SUFFIX :: string where "PDF_SUFFIX = ''pdf''"
definition PNG_SUFFIX :: string where "PNG_SUFFIX = ''png''"
definition SVG_SUFFIX :: string where "SVG_SUFFIX = ''svg''"
definition MP3_SUFFIX :: string where "MP3_SUFFIX = ''mp3''"

text \<open>
  Modelled from the spec: the constants \<^verbatim>\<open>engraving::MSCZ\<close>, \<^verbatim>\<open>MSCX\<close> and \<^verbatim>\<open>MSCS\<close> are
  declared in the engraving module; they are the suffixes of the native save formats.
\<close>

definition MSCZ :: string where "MSCZ = ''mscz''"
definition MSCX :: string where "MSCX = ''mscx''"
definition MSCS :: string where "MSCS = ''mscs''"

definition convertByExtension ::
  "env \<Rightarrow> nat \<Rightarrow> INotation \<Rightarrow> string \<Rightarrow> string \<Rightarrow> state \<Rightarrow> ret \<times> state" where
  "convertByExtension env writer notation out extensionUri s =
     (let r = perform env s extensionUri;
          s1 = emit (Perform extensionUri (success r)) s
      in if \<not> success r then (r, s1)
         else openWriteClose env writer notation out [(''file_path'', out)] [] s1)"

definition isConvertPageByPage :: "string \<Rightarrow> bool" where
  "isConvertPageByPage suffix \<longleftrightarrow> suffix \<in> set [PNG_SUFFIX, SVG_SUFFIX]"

text \<open>
  The file of page \<open>i\<close>: the template \<^verbatim>\<open>dir/base-%1.suffix\<close> with \<open>i + 1\<close> as its argument.
\<close>

definition pageFilePath :: "env \<Rightarrow> string \<Rightarrow> nat \<Rightarrow> string" where
  "pageFilePath env out i =
     argNum env (io_dirpath env out @ ''/'' @ io_completeBasename env out @ ''-%1.''
                 @ io_suffix env out) (i + 1)"

text \<open>
  The loop of \<^verbatim>\<open>convertPageByPage\<close>, from page index \<open>i\<close>. The index is a \<^verbatim>\<open>size_t\<close> below
  the page count; its cast to \<^verbatim>\<open>int\<close> for the writer is the same number (a document
  has far fewer than \<open>2^31\<close> pages).
\<close>

function convertPageByPage_from ::
  "env \<Rightarrow> nat \<Rightarrow> INotation \<Rightarrow> string \<Rightarrow> nat \<Rightarrow> state \<Rightarrow> ret \<times> state" where
  "convertPageByPage_from env writer notation out i s =
     (if i < pages notation then
        (let path = pageFilePath env out i;
             opts = [(PAGE_NUMBER, ValInt (int i))];
             r = openWriteClose env writer notation path
                   [(''dir_path'', out), (''file_path'', path)] opts s
         in if \<not> success (fst r) then r
            else convertPageByPage_from env writer notation out (i + 1) (snd r))
      else (make_ret env Ok, s))"
  by pat_completeness auto
termination
  by (relation "measure (\<lambda>(env, writer, notation, out, i, s). pages notation - i)") auto

declare convertPageByPage_from.simps [simp del]

definition convertPageByPage ::
  "env \<Rightarrow> nat \<Rightarrow> INotation \<Rightarrow> string \<Rightarrow> state \<Rightarrow> ret \<times> state" where
  "convertPageByPage env writer notation out s =
     convertPageByPage_from env writer notation out 0 s"

definition convertFullNotation ::
  "env \<Rightarrow> nat \<Rightarrow> INotation \<Rightarrow> string \<Rightarrow> state \<Rightarrow> ret \<times> state" where
  "convertFullNotation env writer notation out s =
     openWriteClose env writer notation out [(''file_path'', out)] [] s"

text \<open>
  The output file of one part: the directory of the template, its base name with every
  \<^verbatim>\<open>*\<close> replaced by the part's name, and the literal extension.
\<close>

definition partOutPath :: "env \<Rightarrow> string \<Rightarrow> string \<Rightarrow> string \<Rightarrow> string" where
  "partOutPath env out partName ext =
     io_dirpath env out @ ''/'' @ replaceChar (io_completeBasename env out) CHR ''*'' partName
       @ ext"

fun convertScorePartsToPdf_loop ::
  "env \<Rightarrow> nat \<Rightarrow> INotation list \<Rightarrow> string \<Rightarrow> state \<Rightarrow> ret \<times> state" where
  "convertScorePartsToPdf_loop env writer [] out s = (make_ret env Ok, s)"
| "convertScorePartsToPdf_loop env writer (n # notations) out s =
     (let partOut = partOutPath env out (name n) ''.pdf'';
          r = openWriteClose env writer n partOut [] [(UNIT_TYPE, ValUnitType PER_PART)] s
      in if \<not> success (fst r) then r
         else convertScorePartsToPdf_loop env writer notations out (snd r))"

definition convertScorePartsToPdf ::
  "env \<Rightarrow> nat \<Rightarrow> IMasterNotation \<Rightarrow> string \<Rightarrow> state \<Rightarrow> ret \<times> state" where
  "convertScorePartsToPdf env writer masterNotation out s =
     convertScorePartsToPdf_loop env writer (excerpts masterNotation) out s"

fun convertScorePartsToPngs_loop ::
  "env \<Rightarrow> nat \<Rightarrow> INotation list \<Rightarrow> string \<Rightarrow> state \<Rightarrow> ret \<times> state" where
  "convertScorePartsToPngs_loop env writer [] out s = (make_ret env Ok, s)"
| "convertScorePartsToPngs_loop env writer (n # notations) out s =
     (let pngFilePath = partOutPath env out (name n) ''.png'';
          ret2 = convertPageByPage env writer n pngFilePath s
      in if \<not> success (fst ret2) then ret2
         else convertScorePartsToPngs_loop env writer notations out (snd ret2))"

definition convertScorePartsToPngs ::
  "env \<Rightarrow> nat \<Rightarrow> IMasterNotation \<Rightarrow> string \<Rightarrow> state \<Rightarrow> ret \<times> state" where
  "convertScorePartsToPngs env writer masterNotation out s =
     convertScorePartsToPngs_loop env writer (excerpts masterNotation) out s"

fun convertScorePartsToMp3_loop ::
  "env \<Rightarrow> nat \<Rightarrow> INotation list \<Rightarrow> string \<Rightarrow> state \<Rightarrow> ret \<times> state" where
  "convertScorePartsToMp3_loop env writer [] out s = (make_ret env Ok, s)"
| "convertScorePartsToMp3_loop env writer (n # notations) out s =
     (let partOut = partOutPath env out (name n) ''.mp3'';
          r = openWriteClose env writer n partOut [(''file_path'', partOut)]
                [(UNIT_TYPE, ValUnitType PER_PART)] s
      in if \<not> success (fst r) then r
         else convertScorePartsToMp3_loop env writer notations out (snd r))"

definition convertScorePartsToMp3 ::
  "env \<Rightarrow> nat \<Rightarrow> IMasterNotation \<Rightarrow> string \<Rightarrow> state \<Rightarrow> ret \<times> state" where
  "convertScorePartsToMp3 env writer masterNotation out s =
     convertScorePartsToMp3_loop env writer (excerpts masterNotation) out s"

definition convertScoreParts ::
  "env \<Rightarrow> nat \<Rightarrow> IMasterNotation \<Rightarrow> string \<Rightarrow> state \<Rightarrow> ret \<times> state" where
  "convertScoreParts env writer masterNotation out s =
     (let suffix = io_suffix env out
      in if suffix = PDF_SUFFIX then convertScorePartsToPdf env writer masterNotation out s
         else if suffix = PNG_SUFFIX then convertScorePartsToPngs env writer masterNotation out s
         else if suffix = MP3_SUFFIX then convertScorePartsToMp3 env writer masterNotation out s
         else (make_ret env NotSupported, s))"

section \<open>The single-job dispatcher\<close>

text \<open>
  The strategy branch of \<^verbatim>\<open>fileConvert\<close> (from the test for a part conversion job to the
  final \<^verbatim>\<open>return ret\<close>), nested as the source nests it.
\<close>

definition fileConvert_dispatch ::
  "env \<Rightarrow> nat \<Rightarrow> INotationProject \<Rightarrow> string \<Rightarrow> string \<Rightarrow> state \<Rightarrow> ret \<times> state" where
  "fileConvert_dispatch env writer notationProject out extensionUri s =
     (let suffix = io_suffix env out;
          baseName = io_completeBasename env out
      in if CHR ''*'' \<in> set baseName then
           convertScoreParts env writer (projectMasterNotation notationProject) out s
         else if isValid env extensionUri then
           convertByExtension env writer (mnotation (projectMasterNotation notationProject))
             out extensionUri s
         else
           (if suffix = MSCZ \<or> suffix = MSCX \<or> suffix = MSCS then
              (let r = save env s notationProject out in (r, emit (Save out (success r)) s))
            else if isConvertPageByPage suffix then
              convertPageByPage env writer (mnotation (projectMasterNotation notationProject))
                out s
            else
              convertFullNotation env writer (mnotation (projectMasterNotation notationProject))
                out s))"

text \<open>
  The scope of the registration: the project becomes the current project, the strategy
  branch runs, and the deferred block resets the current project on whatever path the
  branch returns.
\<close>

definition fileConvert_scoped ::
  "env \<Rightarrow> nat \<Rightarrow> INotationProject \<Rightarrow> string \<Rightarrow> string \<Rightarrow> state \<Rightarrow> ret \<times> state" where
  "fileConvert_scoped env writer notationProject out extensionUri s =
     (let s1 = setCurrentProject (Some notationProject) s;
          r = fileConvert_dispatch env writer notationProject out extensionUri s1
      in (fst r, setCurrentProject None (snd r)))"

text \<open>
  \<open>fileConvert\<close> with the transpose options already parsed: the overload that
  \<open>batchConvert\<close> calls. (The overload that takes the options as JSON text parses them
  and then calls this one.)
\<close>

definition fileConvert ::
  "env \<Rightarrow> string \<Rightarrow> string \<Rightarrow> string \<Rightarrow> bool \<Rightarrow> string \<Rightarrow> string
     \<Rightarrow> transposeOptions option \<Rightarrow> state \<Rightarrow> ret \<times> state" where
  "fileConvert env inp out stylePath forceMode soundProfile extensionUri transposeOpts s =
     (case writers env (io_suffix env out) of
        None \<Rightarrow> (make_ret env ConvertTypeUnknown, s)
      | Some writer \<Rightarrow>
          (case newProject env s of
             None \<Rightarrow> (make_ret env UnknownError, emit (NewProject False) s)
           | Some created \<Rightarrow>
               (let s1 = emit (NewProject True) s;
                    loaded = load env s1 created inp stylePath forceMode;
                    notationProject = snd loaded;
                    s2 = emit (Load inp stylePath forceMode (success (fst loaded))) s1
                in if \<not> success (fst loaded) then (make_ret env InFileFailedLoad, s2)
                   else
                     (let s3 = (if soundProfile \<noteq> [] then
                                  emit (SetActiveSoundProfile soundProfile)
                                    (emit ClearTrackInputParams s2)
                                else s2)
                      in case transposeOpts of
                           None \<Rightarrow>
                             fileConvert_scoped env writer notationProject out extensionUri s3
                         | Some opts \<Rightarrow>
                             (let r = applyTranspose env s3
                                        (mnotation (projectMasterNotation notationProject)) opts;
                                  s4 = emit (ApplyTranspose opts (success r)) s3
                              in if \<not> success r then (r, s4)
                                 else fileConvert_scoped env writer notationProject out
                                        extensionUri s4)))))"

section \<open>The batch runner\<close>

fun join :: "string \<Rightarrow> string list \<Rightarrow> string" where
  "join sep [] = []"
| "join sep [x] = x"
| "join sep (x # y # ys) = x @ sep @ join sep (y # ys)"

definition errorEntry :: "env \<Rightarrow> ret \<Rightarrow> job \<Rightarrow> string" where
  "errorEntry env r j =
     arg env (arg env (arg env ''failed convert, err: %1, in: %2, out: %3''
                         (retToString env r)) (job_in j)) (job_out j)"

text \<open>
  The loop of \<^verbatim>\<open>batchConvert\<close>. \<open>progress\<close> tells whether a progress object was passed;
  the counter \<open>current\<close> moves only then.
\<close>

fun convertJobs ::
  "env \<Rightarrow> job list \<Rightarrow> string \<Rightarrow> bool \<Rightarrow> string \<Rightarrow> string \<Rightarrow> bool \<Rightarrow> nat \<Rightarrow> nat
     \<Rightarrow> string list \<Rightarrow> state \<Rightarrow> string list \<times> state" where
  "convertJobs env [] stylePath forceMode soundProfile extensionUri progress current totalJobs
     errors s = (errors, s)"
| "convertJobs env (j # jobs) stylePath forceMode soundProfile extensionUri progress current
     totalJobs errors s =
     (let current1 = (if progress then current + 1 else current);
          s1 = (if progress then emit (Progress current1 totalJobs (job_in j)) s else s);
          r = fileConvert env (job_in j) (job_out j) stylePath forceMode soundProfile
                extensionUri (transposeOptions j) s1;
          errors1 = (if \<not> success (fst r) then errors @ [errorEntry env (fst r) j]
                     else errors)
      in convertJobs env jobs stylePath forceMode soundProfile extensionUri progress current1
           totalJobs errors1 (snd r))"

definition batchConvert ::
  "env \<Rightarrow> string \<Rightarrow> string \<Rightarrow> bool \<Rightarrow> string \<Rightarrow> string \<Rightarrow> bool \<Rightarrow> state
     \<Rightarrow> ret \<times> state" where
  "batchConvert env batchJobFile stylePath forceMode soundProfile extensionUri progress s =
     (let s0 = (if progress then emit ProgressStart s else s);
          batchJob = parseBatchJob env batchJobFile
      in if \<not> success (fst batchJob) then
           (fst batchJob,
            if progress then emit (ProgressFinish (fst batchJob)) s0 else s0)
         else
           (let totalJobs = length (snd batchJob);
                looped = convertJobs env (snd batchJob) stylePath forceMode soundProfile
                         extensionUri progress 0 totalJobs [] s0;
                errors = fst looped;
                r = (if errors \<noteq> [] then make_ret_text ConvertFailed (join [CHR 0x0A] errors)
                     else make_ret env Ok)
            in (r, if progress then emit (ProgressFinish r) (snd looped) else snd looped)))"

section \<open>A sample environment\<close>

text \<open>
  A concrete environment for running the model on examples. Its path helpers split a
  path at the last \<^verbatim>\<open>/\<close> and the file name at its last dot; its formatter fills the
  lowest-numbered marker of a template; a writer is registered for \<^verbatim>\<open>pdf\<close>, \<^verbatim>\<open>png\<close>,
  \<^verbatim>\<open>svg\<close>, \<^verbatim>\<open>mp3\<close> and \<^verbatim>\<open>mscz\<close>; the input \<^verbatim>\<open>missing.mscz\<close> does not load, every other
  input loads as a score of two pages with the parts Violin and Cello; no file opens in
  the directory \<^verbatim>\<open>readonly\<close>.
\<close>

definition sample_fileName :: "string \<Rightarrow> string" where
  "sample_fileName p = rev (takeWhile (\<lambda>c. c \<noteq> CHR ''/'') (rev p))"

definition sample_dirpath :: "string \<Rightarrow> string" where
  "sample_dirpath p =
     (if CHR ''/'' \<in> set p then rev (tl (dropWhile (\<lambda>c. c \<noteq> CHR ''/'') (rev p))) else ''.'')"

definition sample_suffix :: "string \<Rightarrow> string" where
  "sample_suffix p =
     (let f = sample_fileName p
      in if CHR ''.'' \<in> set f then rev (takeWhile (\<lambda>c. c \<noteq> CHR ''.'') (rev f)) else [])"

definition sample_completeBasename :: "string \<Rightarrow> string" where
  "sample_completeBasename p =
     (let f = sample_fileName p
      in if CHR ''.'' \<in> set f then rev (tl (dropWhile (\<lambda>c. c \<noteq> CHR ''.'') (rev f))) else f)"

fun hasMarker :: "char \<Rightarrow> string \<Rightarrow> bool" where
  "hasMarker d (a # b # cs) = ((a = CHR ''%'' \<and> b = d) \<or> hasMarker d (b # cs))"
| "hasMarker d cs = False"

fun fillMarker :: "char \<Rightarrow> string \<Rightarrow> string \<Rightarrow> string" where
  "fillMarker d v (a # b # cs) =
     (if a = CHR ''%'' \<and> b = d then v @ fillMarker d v cs else a # fillMarker d v (b # cs))"
| "fillMarker d v cs = cs"

definition sample_arg :: "string \<Rightarrow> string \<Rightarrow> string" where
  "sample_arg t v =
     (if hasMarker CHR ''1'' t then fillMarker CHR ''1'' v t
      else if hasMarker CHR ''2'' t then fillMarker CHR ''2'' v t
      else if hasMarker CHR ''3'' t then fillMarker CHR ''3'' v t
      else t)"

text \<open>The decimal numeral of a number.\<close>

fun decimal :: "nat \<Rightarrow> string" where
  "decimal n =
     (if n < 10 then [''0123456789'' ! n]
      else decimal (n div 10) @ [''0123456789'' ! (n mod 10)])"

declare decimal.simps [simp del]

definition sample_errText :: "errc \<Rightarrow> string" where
  "sample_errText c =
     (case c of
        Ok \<Rightarrow> ''ok''
      | NotSupported \<Rightarrow> ''not supported''
      | UnknownError \<Rightarrow> ''unknown error''
      | BatchJobFileFailedOpen \<Rightarrow> ''batch job file failed open''
      | BatchJobFileFailedParse \<Rightarrow> ''batch job file failed parse''
      | ConvertTypeUnknown \<Rightarrow> ''convert type unknown''
      | InFileFailedLoad \<Rightarrow> ''in file failed load''
      | OutFileFailedOpen \<Rightarrow> ''out file failed open''
      | OutFileFailedWrite \<Rightarrow> ''out file failed write''
      | ConvertFailed \<Rightarrow> ''convert failed''
      | OtherCode n \<Rightarrow> ''error'')"

definition sample_project :: INotationProject where
  "sample_project =
     \<lparr>projectMasterNotation =
        \<lparr>mnotation = \<lparr>name = ''Score'', pages = 2\<rparr>,
         excerpts = [\<lparr>name = ''Violin'', pages = 1\<rparr>, \<lparr>name = ''Cello'', pages = 1\<rparr>]\<rparr>\<rparr>"

definition empty_project :: INotationProject where
  "empty_project =
     \<lparr>projectMasterNotation = \<lparr>mnotation = \<lparr>name = [], pages = 0\<rparr>, excerpts = []\<rparr>\<rparr>"

text \<open>
  The batch files. \<^verbatim>\<open>three.json\<close> holds three jobs, the second with an input that does
  not load; \<^verbatim>\<open>bad.json\<close> holds a job followed by one whose transpose object does not
  parse; \<^verbatim>\<open>parts.json\<close> holds the one job with the templated output
  \<^verbatim>\<open>["parts/", "pdf"]\<close>; \<^verbatim>\<open>multi.json\<close> holds a job with two outputs and a job with
  one; \<^verbatim>\<open>empty_out.json\<close> holds one job whose \<^verbatim>\<open>out\<close> is the empty array;
  \<^verbatim>\<open>loose.json\<close> holds a job without \<^verbatim>\<open>in\<close>, a job whose \<^verbatim>\<open>out\<close> is a number and a job
  whose \<^verbatim>\<open>out\<close> array has a number, a string and a one-element array;
  \<^verbatim>\<open>marker.json\<close> holds one job whose input path contains \<^verbatim>\<open>%3\<close> and whose output has a
  suffix without a writer.
\<close>

definition doc_three :: json where
  "doc_three = JArray
     [JObject [(''in'', JString ''a.mscz''), (''out'', JString ''a.pdf'')],
      JObject [(''in'', JString ''missing.mscz''), (''out'', JString ''b.pdf'')],
      JObject [(''in'', JString ''c.mscz''), (''out'', JString ''c.png'')]]"

definition doc_bad :: json where
  "doc_bad = JArray
     [JObject [(''in'', JString ''a.mscz''), (''out'', JString ''a.pdf'')],
      JObject [(''in'', JString ''c.mscz''), (''transpose'', JObject [(''mode'', JDouble 5)]),
               (''out'', JString ''c.pdf'')]]"

definition doc_parts :: json where
  "doc_parts = JArray
     [JObject [(''in'', JString ''a.ext''),
               (''out'', JArray [JArray [JString ''parts/'', JString ''pdf'']])]]"

definition doc_multi :: json where
  "doc_multi = JArray
     [JObject [(''in'', JString ''a.ext''), (''out'', JArray [JString ''b.pdf'', JString ''c.svg''])],
      JObject [(''in'', JString ''d.ext''), (''out'', JString ''e.pdf'')]]"

definition doc_empty_out :: json where
  "doc_empty_out = JArray [JObject [(''in'', JString ''a.ext''), (''out'', JArray [])]]"

definition doc_loose :: json where
  "doc_loose = JArray
     [JObject [(''out'', JString ''x.pdf'')],
      JObject [(''in'', JString ''a.mscz''), (''out'', JDouble 3)],
      JObject [(''in'', JString ''b.mscz''),
               (''out'', JArray [JDouble 5, JString ''y.pdf'', JArray [JString ''z'']])]]"

definition doc_marker :: json where
  "doc_marker = JArray [JObject [(''in'', JString ''x%3.mscz''), (''out'', JString ''b.xyz'')]]"

definition sample_fromJson :: "string \<Rightarrow> jsonParseError \<times> json" where
  "sample_fromJson d =
     (let ok = \<lparr>noError = True, errorString = ''no error occurred''\<rparr>
      in if d = ''<three>'' then (ok, doc_three)
         else if d = ''<bad>'' then (ok, doc_bad)
         else if d = ''<parts>'' then (ok, doc_parts)
         else if d = ''<multi>'' then (ok, doc_multi)
         else if d = ''<empty_out>'' then (ok, doc_empty_out)
         else if d = ''<loose>'' then (ok, doc_loose)
         else if d = ''<marker>'' then (ok, doc_marker)
         else (\<lparr>noError = False, errorString = ''illegal value''\<rparr>, JNull))"

definition sample_readAll :: "string \<Rightarrow> string option" where
  "sample_readAll p =
     (if p = ''three.json'' then Some ''<three>''
      else if p = ''bad.json'' then Some ''<bad>''
      else if p = ''parts.json'' then Some ''<parts>''
      else if p = ''multi.json'' then Some ''<multi>''
      else if p = ''empty_out.json'' then Some ''<empty_out>''
      else if p = ''loose.json'' then Some ''<loose>''
      else if p = ''marker.json'' then Some ''<marker>''
      else None)"

definition sample_parseTransposeOptions :: "(string \<times> json) list \<Rightarrow> ret \<times> transposeOptions" where
  "sample_parseTransposeOptions obj =
     (if isString (atKey (JObject obj) ''mode'') then
        (\<lparr>code = Ok, msg = []\<rparr>, TransposeOptions [])
      else (\<lparr>code = OtherCode 7, msg = ''bad transpose mode''\<rparr>, TransposeOptions []))"

definition sample_writers :: "string \<Rightarrow> nat option" where
  "sample_writers suffix =
     (if suffix = ''pdf'' then Some 1
      else if suffix = ''png'' then Some 2
      else if suffix = ''svg'' then Some 3
      else if suffix = ''mp3'' then Some 4
      else if suffix = ''mscz'' then Some 5
      else None)"

definition sample_env :: env where
  "sample_env =
     \<lparr>io_suffix = sample_suffix,
      io_completeBasename = sample_completeBasename,
      io_dirpath = sample_dirpath,
      fromNativeSeparators = (\<lambda>p. p),
      arg = sample_arg,
      argNum = (\<lambda>t n. sample_arg t (decimal n)),
      retToString = (\<lambda>r. ''['' @ sample_errText (code r) @ ''] '' @ msg r),
      errText = sample_errText,
      readAll = sample_readAll,
      fromJson = sample_fromJson,
      parseTransposeOptions = sample_parseTransposeOptions,
      writers = sample_writers,
      newProject = (\<lambda>s. Some empty_project),
      load = (\<lambda>s created inp stylePath forceMode.
                if inp = ''missing.mscz'' then (\<lparr>code = OtherCode 3, msg = ''no such file''\<rparr>, created)
                else (\<lparr>code = Ok, msg = []\<rparr>, sample_project)),
      applyTranspose = (\<lambda>s n opts. \<lparr>code = Ok, msg = []\<rparr>),
      isValid = (\<lambda>uri. uri \<noteq> []),
      perform = (\<lambda>s uri. \<lparr>code = Ok, msg = []\<rparr>),
      fileOpen = (\<lambda>s p. sample_dirpath p \<noteq> ''readonly''),
      writerWrite = (\<lambda>s writer n f opts. \<lparr>code = Ok, msg = []\<rparr>),
      save = (\<lambda>s p out. \<lparr>code = Ok, msg = []\<rparr>)\<rparr>"

definition idle :: state where
  "idle = \<lparr>currentProject = None, trace = []\<rparr>"

section \<open>Notions used in the statements\<close>

text \<open>
  The job object \<open>obj\<close> has a non-empty \<^verbatim>\<open>transpose\<close> object that the transpose-option
  parser rejects.
\<close>

definition transposeFails :: "env \<Rightarrow> json \<Rightarrow> bool" where
  "transposeFails env obj \<longleftrightarrow>
     toObject (atKey obj ''transpose'') \<noteq> []
     \<and> \<not> success (fst (parseTransposeOptions env (toObject (atKey obj ''transpose''))))"

text \<open>The events that a run from state \<open>s\<close> to state \<open>s'\<close> added, with and without stamps.\<close>

definition addedStamped :: "state \<Rightarrow> state \<Rightarrow> (INotationProject option \<times> event) list" where
  "addedStamped s s' = drop (length (trace s)) (trace s')"

definition added :: "state \<Rightarrow> state \<Rightarrow> event list" where
  "added s s' = map snd (addedStamped s s')"

text \<open>The files that were opened for writing, in order.\<close>

fun openedFiles :: "event list \<Rightarrow> string list" where
  "openedFiles [] = []"
| "openedFiles (FileOpen p ok # es) = (if ok then p # openedFiles es else openedFiles es)"
| "openedFiles (e # es) = openedFiles es"

text \<open>
  The job that the parser builds from a job object before it looks at \<^verbatim>\<open>out\<close>: the input
  path and, when the object has a non-empty \<^verbatim>\<open>transpose\<close> object, the parsed options.
\<close>

definition parentJob :: "env \<Rightarrow> json \<Rightarrow> job" where
  "parentJob env obj =
     \<lparr>job_in = correctUserInputPath env (toString (atKey obj ''in'')),
      job_out = [],
      transposeOptions =
        (if toObject (atKey obj ''transpose'') \<noteq> []
         then Some (snd (parseTransposeOptions env (toObject (atKey obj ''transpose''))))
         else None)\<rparr>"

text \<open>
  From state \<open>s\<close> the events \<open>es\<close> happen, all under the current project of \<open>s\<close>, which
  stays the current project; \<open>s'\<close> is the state after them.
\<close>

definition run :: "state \<Rightarrow> event list \<Rightarrow> state \<Rightarrow> bool" where
  "run s es s' \<longleftrightarrow>
     currentProject s' = currentProject s
     \<and> trace s' = trace s @ map (Pair (currentProject s)) es"



text \<open>The three events of a file written without failure.\<close>

definition writeEvents ::
  "nat \<Rightarrow> INotation \<Rightarrow> string \<Rightarrow> (string \<times> string) list \<Rightarrow> options \<Rightarrow> event list" where
  "writeEvents writer n path fileMeta opts =
     [FileOpen path True,
      Write writer n \<lparr>filePath = path, meta = fileMeta\<rparr> opts True,
      FileClose path]"


text \<open>
  The state in which \<open>fileConvert\<close> registers the project, when the project was created
  and loaded and the transposition (if any) succeeded.
\<close>

definition prepared ::
  "string \<Rightarrow> string \<Rightarrow> bool \<Rightarrow> string \<Rightarrow> transposeOptions option \<Rightarrow> state \<Rightarrow> state" where
  "prepared inp stylePath forceMode soundProfile transposeOpts s =
     (let s2 = emit (Load inp stylePath forceMode True) (emit (NewProject True) s);
          s3 = (if soundProfile \<noteq> [] then
                  emit (SetActiveSoundProfile soundProfile) (emit ClearTrackInputParams s2)
                else s2)
      in case transposeOpts of
           None \<Rightarrow> s3
         | Some opts \<Rightarrow> emit (ApplyTranspose opts True) s3)"




text \<open>
  The results of the jobs of a batch, in order: each job is converted by \<open>fileConvert\<close>
  in the state that the jobs before it (and its own progress notice) left.
\<close>

fun jobResults ::
  "env \<Rightarrow> job list \<Rightarrow> string \<Rightarrow> bool \<Rightarrow> string \<Rightarrow> string \<Rightarrow> bool \<Rightarrow> nat \<Rightarrow> nat
     \<Rightarrow> state \<Rightarrow> ret list" where
  "jobResults env [] stylePath forceMode soundProfile extensionUri progress current totalJobs s
     = []"
| "jobResults env (j # jobs) stylePath forceMode soundProfile extensionUri progress current
     totalJobs s =
     (let current1 = (if progress then current + 1 else current);
          s1 = (if progress then emit (Progress current1 totalJobs (job_in j)) s else s);
          r = fileConvert env (job_in j) (job_out j) stylePath forceMode soundProfile
                extensionUri (transposeOptions j) s1
      in fst r # jobResults env jobs stylePath forceMode soundProfile extensionUri progress
                   current1 totalJobs (snd r))"





text \<open>
  The state after the events \<open>es\<close> have happened from state \<open>s\<close>, under the current
  project of \<open>s\<close>.
\<close>

definition after :: "state \<Rightarrow> event list \<Rightarrow> state" where
  "after s es = s\<lparr>trace := trace s @ map (Pair (currentProject s)) es\<rparr>"





section \<open>Basic facts\<close>

lemma success_make_ret [simp]: "success (make_ret env c) \<longleftrightarrow> c = Ok"
  by (simp add: success_def make_ret_def)

lemma code_make_ret [simp]: "code (make_ret env c) = c"
  by (simp add: make_ret_def)

lemma make_ret_load_update [simp]: "make_ret (env\<lparr>load := l\<rparr>) c = make_ret env c"
  by (simp add: make_ret_def)

section \<open>The writer is looked up before the document is loaded\<close>

text \<open>
  C7. When no writer is registered for the suffix of the output path, \<open>fileConvert\<close>
  returns \<open>ConvertTypeUnknown\<close> and leaves the state as it was: no project is created and
  no load is attempted. The result is the same for every loader, so it does not depend
  on whether the input would load.
\<close>

theorem fileConvert_unknown_type_before_load:
  assumes "writers env (io_suffix env out) = None"
  shows "fileConvert (env\<lparr>load := l\<rparr>) inp out stylePath forceMode soundProfile extensionUri
           transposeOpts s = (make_ret env ConvertTypeUnknown, s)"
  using assms by (simp add: fileConvert_def)

theorem fileConvert_unknown_type_before_load_witness:
  "writers sample_env (io_suffix sample_env ''score.xyz'') = None \<and>
   fileConvert
     (sample_env\<lparr>load := (\<lambda>s created inp stylePath forceMode.
                              (\<lparr>code = Ok, msg = []\<rparr>, sample_project))\<rparr>)
     ''a.mscz'' ''score.xyz'' [] False [] [] None idle
   = (make_ret sample_env ConvertTypeUnknown, idle)"
proof -
  have h: "writers sample_env (io_suffix sample_env ''score.xyz'') = None"
    by code_simp
  show ?thesis
    using h fileConvert_unknown_type_before_load [OF h] by simp
qed

section \<open>The codes a conversion returns\<close>

lemma openWriteClose_code:
  "code (fst (openWriteClose env writer n path fileMeta opts s))
     \<in> {Ok, OutFileFailedOpen, OutFileFailedWrite}"
  by (simp add: openWriteClose_def Let_def)

lemma convertPageByPage_from_code:
  "code (fst (convertPageByPage_from env writer n out i s))
     \<in> {Ok, OutFileFailedOpen, OutFileFailedWrite}"
proof (induction env writer n out i s rule: convertPageByPage_from.induct)
  case (1 env writer n out i s)
  let ?r = "openWriteClose env writer n (pageFilePath env out i)
              [(''dir_path'', out), (''file_path'', pageFilePath env out i)]
              [(PAGE_NUMBER, ValInt (int i))] s"
  show ?case
  proof (cases "i < pages n")
    case False
    then show ?thesis by (simp add: convertPageByPage_from.simps)
  next
    case True
    show ?thesis
    proof (cases "success (fst ?r)")
      case False
      with True openWriteClose_code [of env writer n "pageFilePath env out i"
          "[(''dir_path'', out), (''file_path'', pageFilePath env out i)]"
          "[(PAGE_NUMBER, ValInt (int i))]" s]
      show ?thesis by (subst convertPageByPage_from.simps) (simp add: Let_def)
    next
      case ok: True
      with True "1.IH" [OF True refl refl refl] show ?thesis
        by (subst convertPageByPage_from.simps) (simp add: Let_def)
    qed
  qed
qed

lemma convertScorePartsToPdf_loop_code:
  "code (fst (convertScorePartsToPdf_loop env writer ns out s))
     \<in> {Ok, OutFileFailedOpen, OutFileFailedWrite}"
proof (induction ns arbitrary: s)
  case Nil
  show ?case by simp
next
  case (Cons n ns)
  show ?case
    using Cons.IH openWriteClose_code [of env writer n "partOutPath env out (name n) ''.pdf''"
        "[]" "[(UNIT_TYPE, ValUnitType PER_PART)]" s]
    by (simp add: Let_def)
qed

lemma convertScorePartsToMp3_loop_code:
  "code (fst (convertScorePartsToMp3_loop env writer ns out s))
     \<in> {Ok, OutFileFailedOpen, OutFileFailedWrite}"
proof (induction ns arbitrary: s)
  case Nil
  show ?case by simp
next
  case (Cons n ns)
  show ?case
    using Cons.IH openWriteClose_code [of env writer n "partOutPath env out (name n) ''.mp3''"
        "[(''file_path'', partOutPath env out (name n) ''.mp3'')]"
        "[(UNIT_TYPE, ValUnitType PER_PART)]" s]
    by (simp add: Let_def)
qed

lemma convertScorePartsToPngs_loop_code:
  "code (fst (convertScorePartsToPngs_loop env writer ns out s))
     \<in> {Ok, OutFileFailedOpen, OutFileFailedWrite}"
proof (induction ns arbitrary: s)
  case Nil
  show ?case by simp
next
  case (Cons n ns)
  show ?case
    using Cons.IH convertPageByPage_from_code [of env writer n
        "partOutPath env out (name n) ''.png''" 0 s]
    by (simp add: Let_def convertPageByPage_def)
qed

section \<open>Part conversion is supported for pdf, png and mp3 only\<close>

text \<open>
  C9. \<open>convertScoreParts\<close>, the per-part conversion that \<open>fileConvert\<close> enters when the
  base name of the output contains the placeholder, returns \<open>NotSupported\<close> (and does
  nothing else) unless the suffix of the output is \<^verbatim>\<open>pdf\<close>, \<^verbatim>\<open>png\<close> or \<^verbatim>\<open>mp3\<close>; for these
  three suffixes its result is never \<open>NotSupported\<close>.
\<close>

theorem convertScoreParts_not_supported:
  "(io_suffix env out \<notin> {PDF_SUFFIX, PNG_SUFFIX, MP3_SUFFIX} \<longrightarrow>
      convertScoreParts env writer masterNotation out s = (make_ret env NotSupported, s)) \<and>
   (code (fst (convertScoreParts env writer masterNotation out s)) = NotSupported
      \<longleftrightarrow> io_suffix env out \<notin> {PDF_SUFFIX, PNG_SUFFIX, MP3_SUFFIX}) \<and>
   (CHR ''*'' \<in> set (io_completeBasename env out) \<longrightarrow>
      fileConvert_dispatch env writer project out extensionUri s
        = convertScoreParts env writer (projectMasterNotation project) out s)"
proof -
  have pdf: "code (fst (convertScorePartsToPdf env writer masterNotation out s)) \<noteq> NotSupported"
    using convertScorePartsToPdf_loop_code [of env writer "excerpts masterNotation" out s]
    by (auto simp: convertScorePartsToPdf_def)
  have png: "code (fst (convertScorePartsToPngs env writer masterNotation out s)) \<noteq> NotSupported"
    using convertScorePartsToPngs_loop_code [of env writer "excerpts masterNotation" out s]
    by (auto simp: convertScorePartsToPngs_def)
  have mp3: "code (fst (convertScorePartsToMp3 env writer masterNotation out s)) \<noteq> NotSupported"
    using convertScorePartsToMp3_loop_code [of env writer "excerpts masterNotation" out s]
    by (auto simp: convertScorePartsToMp3_def)
  show ?thesis
    using pdf png mp3 by (simp add: convertScoreParts_def fileConvert_dispatch_def Let_def)
qed

theorem convertScoreParts_not_supported_witness:
  "io_suffix sample_env ''parts/*.svg'' \<notin> {PDF_SUFFIX, PNG_SUFFIX, MP3_SUFFIX} \<and>
   CHR ''*'' \<in> set (io_completeBasename sample_env ''parts/*.svg'') \<and>
   fileConvert_dispatch sample_env 3 sample_project ''parts/*.svg'' [] idle
     = (make_ret sample_env NotSupported, idle) \<and>
   code (fst (convertScoreParts sample_env 1 (projectMasterNotation sample_project)
                ''parts/*.pdf'' idle)) \<noteq> NotSupported"
proof -
  have h1: "io_suffix sample_env ''parts/*.svg'' \<notin> {PDF_SUFFIX, PNG_SUFFIX, MP3_SUFFIX}"
    by code_simp
  have h2: "CHR ''*'' \<in> set (io_completeBasename sample_env ''parts/*.svg'')"
    by code_simp
  have h3: "\<not> io_suffix sample_env ''parts/*.pdf'' \<notin> {PDF_SUFFIX, PNG_SUFFIX, MP3_SUFFIX}"
    by code_simp
  show ?thesis
    using h1 h2 h3
      convertScoreParts_not_supported [of sample_env "''parts/*.svg''" 3
        "projectMasterNotation sample_project" idle sample_project "[]"]
      convertScoreParts_not_supported [of sample_env "''parts/*.pdf''" 1
        "projectMasterNotation sample_project" idle sample_project "[]"]
    by simp
qed

section \<open>Facts about the parser\<close>

lemma partJobs_append: "partJobs env job items acc = acc @ map (partJob env job) items"
  by (induction items arbitrary: acc) simp_all

lemma parseJobs_acc_gen:
  "parseJobs env arr (acc @ acc') =
     (fst (parseJobs env arr acc'), acc @ snd (parseJobs env arr acc'))"
proof (induction arr arbitrary: acc')
  case Nil
  show ?case by simp
next
  case (Cons obj arr)
  show ?case
    using Cons.IH by (simp add: Let_def partJobs_append)
qed

lemma parseJobs_acc:
  "parseJobs env arr acc = (fst (parseJobs env arr []), acc @ snd (parseJobs env arr []))"
  using parseJobs_acc_gen [of env arr acc "[]"] by simp

lemma parseJobs_fails:
  "transposeFails env obj \<Longrightarrow>
     parseJobs env (obj # arr) acc
       = (fst (parseTransposeOptions env (toObject (atKey obj ''transpose''))), acc)"
  by (simp add: transposeFails_def Let_def)

lemma parseJobs_step:
  assumes "\<not> transposeFails env obj"
  shows "parseJobs env (obj # arr) [] =
           (fst (parseJobs env arr []), snd (parseJobs env [obj] []) @ snd (parseJobs env arr []))"
proof -
  have "parseJobs env (obj # arr) [] = parseJobs env arr (snd (parseJobs env [obj] []))"
    using assms by (auto simp: transposeFails_def Let_def)
  then show ?thesis
    by (subst (asm) parseJobs_acc) simp
qed

declare parseJobs.simps(2) [simp del]

lemma parseJobs_success:
  "success (fst (parseJobs env arr [])) \<longleftrightarrow> (\<forall>obj \<in> set arr. \<not> transposeFails env obj)"
proof (induction arr)
  case Nil
  show ?case by simp
next
  case (Cons obj arr)
  show ?case
  proof (cases "transposeFails env obj")
    case True
    then show ?thesis
      by (simp add: parseJobs_fails) (simp add: transposeFails_def)
  next
    case False
    then show ?thesis using Cons.IH parseJobs_step [OF False, of arr] by simp
  qed
qed

lemma parseJobs_concat:
  "\<forall>obj \<in> set arr. \<not> transposeFails env obj \<Longrightarrow>
     parseJobs env arr [] =
       (make_ret env Ok, concat (map (\<lambda>obj. snd (parseJobs env [obj] [])) arr))"
proof (induction arr)
  case Nil
  show ?case by simp
next
  case (Cons obj arr)
  then have "\<not> transposeFails env obj" by simp
  from parseJobs_step [OF this, of arr] Cons show ?case by simp
qed

lemma parseJobs_first_failure:
  "\<exists>obj \<in> set arr. transposeFails env obj \<Longrightarrow>
     \<exists>pre bad post. arr = pre @ bad # post \<and> (\<forall>obj \<in> set pre. \<not> transposeFails env obj)
        \<and> transposeFails env bad
        \<and> fst (parseJobs env arr [])
            = fst (parseTransposeOptions env (toObject (atKey bad ''transpose'')))"
proof (induction arr)
  case Nil
  then show ?case by simp
next
  case (Cons obj arr)
  show ?case
  proof (cases "transposeFails env obj")
    case True
    then have "obj # arr = [] @ obj # arr \<and> (\<forall>x \<in> set []. \<not> transposeFails env x)
        \<and> transposeFails env obj
        \<and> fst (parseJobs env (obj # arr) [])
            = fst (parseTransposeOptions env (toObject (atKey obj ''transpose'')))"
      by (simp add: parseJobs_fails)
    then show ?thesis by blast
  next
    case False
    with Cons.prems have "\<exists>obj \<in> set arr. transposeFails env obj" by auto
    from Cons.IH [OF this] obtain pre bad post where
      h: "arr = pre @ bad # post" "\<forall>obj \<in> set pre. \<not> transposeFails env obj"
         "transposeFails env bad"
         "fst (parseJobs env arr []) = fst (parseTransposeOptions env (toObject (atKey bad ''transpose'')))"
      by blast
    have "obj # arr = (obj # pre) @ bad # post \<and> (\<forall>x \<in> set (obj # pre). \<not> transposeFails env x)
        \<and> transposeFails env bad
        \<and> fst (parseJobs env (obj # arr) [])
            = fst (parseTransposeOptions env (toObject (atKey bad ''transpose'')))"
      using h False parseJobs_step [OF False, of arr] by simp
    then show ?thesis by blast
  qed
qed

lemma parseBatchJob_array:
  assumes "readAll env f = Some content" and "fromJson env content = (err, JArray arr)"
    and "noError err"
  shows "parseBatchJob env f = parseJobs env arr []"
  using assms by (simp add: parseBatchJob_def Let_def)

lemma parseJobs_single:
  assumes "\<not> transposeFails env obj"
  shows "parseJobs env [obj] [] =
           (make_ret env Ok,
            if isString (atKey obj ''out'') then
              [(parentJob env obj)\<lparr>job_out := correctUserInputPath env (toString (atKey obj ''out''))\<rparr>]
            else if isArray (atKey obj ''out'') then
              map (partJob env (parentJob env obj)) (toArray (atKey obj ''out''))
            else [])"
  using assms
  by (auto simp: parseJobs.simps(2) transposeFails_def parentJob_def Let_def partJobs_append)

lemma job_in_partJob [simp]: "job_in (partJob env j item) = job_in j"
  by (simp add: partJob_def Let_def)


section \<open>A transpose object that does not parse aborts the batch\<close>

text \<open>
  C6. Let the batch file hold a well-formed JSON array in which some job object has a
  non-empty \<^verbatim>\<open>transpose\<close> object that the transpose-option parser rejects. Then
  \<open>parseBatchJob\<close> fails, and its error is the parser's error for the first such object.
  \<open>batchConvert\<close> returns that error without converting any job: the state is the one
  it started in (apart from the start and finish notices of a progress object),
  whatever jobs stand before the failing object in the file.
\<close>

theorem parseBatchJob_transpose_fail_fast:
  assumes "readAll env f = Some content" and "fromJson env content = (err, JArray arr)"
    and "noError err"
    and "bad \<in> set arr" and "transposeFails env bad"
  shows "\<not> success (fst (parseBatchJob env f)) \<and>
         (\<exists>pre b post. arr = pre @ b # post \<and> (\<forall>x \<in> set pre. \<not> transposeFails env x)
            \<and> transposeFails env b
            \<and> fst (parseBatchJob env f)
                = fst (parseTransposeOptions env (toObject (atKey b ''transpose'')))) \<and>
         batchConvert env f stylePath forceMode soundProfile extensionUri progress s =
           (fst (parseBatchJob env f),
            if progress then emit (ProgressFinish (fst (parseBatchJob env f))) (emit ProgressStart s)
            else s)"
proof -
  have eq: "parseBatchJob env f = parseJobs env arr []"
    using assms(1-3) by (rule parseBatchJob_array)
  have ex: "\<exists>obj \<in> set arr. transposeFails env obj"
    using assms(4,5) by blast
  have fail: "\<not> success (fst (parseBatchJob env f))"
    using ex by (simp add: eq parseJobs_success)
  have first: "\<exists>pre b post. arr = pre @ b # post \<and> (\<forall>x \<in> set pre. \<not> transposeFails env x)
            \<and> transposeFails env b
            \<and> fst (parseBatchJob env f)
                = fst (parseTransposeOptions env (toObject (atKey b ''transpose'')))"
    using parseJobs_first_failure [OF ex] by (simp add: eq)
  have batch: "batchConvert env f stylePath forceMode soundProfile extensionUri progress s =
           (fst (parseBatchJob env f),
            if progress then emit (ProgressFinish (fst (parseBatchJob env f))) (emit ProgressStart s)
            else s)"
    using fail by (simp add: batchConvert_def Let_def)
  from fail first batch show ?thesis by blast
qed

theorem parseBatchJob_transpose_fail_fast_witness:
  "readAll sample_env ''bad.json'' = Some ''<bad>'' \<and>
   fromJson sample_env ''<bad>''
     = (\<lparr>noError = True, errorString = ''no error occurred''\<rparr>, JArray (toArray doc_bad)) \<and>
   toArray doc_bad ! 1 \<in> set (toArray doc_bad) \<and>
   transposeFails sample_env (toArray doc_bad ! 1) \<and>
   \<not> success (fst (parseBatchJob sample_env ''bad.json'')) \<and>
   batchConvert sample_env ''bad.json'' [] False [] [] False idle
     = (\<lparr>code = OtherCode 7, msg = ''bad transpose mode''\<rparr>, idle)"
proof -
  have h1: "readAll sample_env ''bad.json'' = Some ''<bad>''"
    by code_simp
  have h2: "fromJson sample_env ''<bad>''
     = (\<lparr>noError = True, errorString = ''no error occurred''\<rparr>, JArray (toArray doc_bad))"
    by code_simp
  have h3: "noError \<lparr>noError = True, errorString = ''no error occurred''\<rparr>"
    by simp
  have h4: "toArray doc_bad ! 1 \<in> set (toArray doc_bad)"
    by code_simp
  have h5: "transposeFails sample_env (toArray doc_bad ! 1)"
    by code_simp
  have v: "fst (parseBatchJob sample_env ''bad.json'')
             = \<lparr>code = OtherCode 7, msg = ''bad transpose mode''\<rparr>"
    by code_simp
  show ?thesis
    using h1 h2 h4 h5 v
      parseBatchJob_transpose_fail_fast [OF h1 h2 h3 h4 h5, of "[]" False "[]" "[]" False idle]
    by simp
qed

section \<open>The parser validates nothing but transpose options\<close>



section \<open>The jobs of a batch file\<close>

text \<open>
  C4, as stated, fails: the batch file \<^verbatim>\<open>[{"in":"a.ext","out":[]}]\<close> is a well-formed
  array with one job object, it parses without error, and it yields no job.
\<close>

theorem parseBatchJob_count_counterexample:
  "fst (parseBatchJob sample_env ''empty_out.json'') = make_ret sample_env Ok \<and>
   snd (fromJson sample_env (the (readAll sample_env ''empty_out.json'')))
     = JArray [JObject [(''in'', JString ''a.ext''), (''out'', JArray [])]] \<and>
   \<not> (length [JObject [(''in'', JString ''a.ext''), (''out'', JArray [])]]
        \<le> length (snd (parseBatchJob sample_env ''empty_out.json'')))"
  by code_simp

text \<open>
  C4, amended. When \<open>parseBatchJob\<close> succeeds on a well-formed JSON array, its jobs are
  the jobs of the objects in declaration order, each object's jobs standing together:
  one job for a string \<^verbatim>\<open>out\<close>; for an array \<^verbatim>\<open>out\<close> exactly one job per element, in the
  order of the elements; no job for any other \<^verbatim>\<open>out\<close>. So there are at least as many
  jobs as there are objects whose \<^verbatim>\<open>out\<close> is a string or a non-empty array.
\<close>

theorem parseBatchJob_expansion:
  assumes "readAll env f = Some content" and "fromJson env content = (err, JArray arr)"
    and "noError err"
    and "success (fst (parseBatchJob env f))"
  shows "snd (parseBatchJob env f) = concat (map (\<lambda>obj. snd (parseJobs env [obj] [])) arr) \<and>
         (\<forall>obj \<in> set arr.
            snd (parseJobs env [obj] []) =
              (if isString (atKey obj ''out'') then
                 [(parentJob env obj)\<lparr>job_out :=
                     correctUserInputPath env (toString (atKey obj ''out''))\<rparr>]
               else if isArray (atKey obj ''out'') then
                 map (partJob env (parentJob env obj)) (toArray (atKey obj ''out''))
               else [])) \<and>
         length (filter (\<lambda>obj. isString (atKey obj ''out'') \<or> toArray (atKey obj ''out'') \<noteq> [])
                   arr)
           \<le> length (snd (parseBatchJob env f))"
proof -
  have eq: "parseBatchJob env f = parseJobs env arr []"
    using assms(1-3) by (rule parseBatchJob_array)
  have ok: "\<forall>obj \<in> set arr. \<not> transposeFails env obj"
    using assms(4) by (simp add: eq parseJobs_success)
  have a: "snd (parseBatchJob env f) = concat (map (\<lambda>obj. snd (parseJobs env [obj] [])) arr)"
    using parseJobs_concat [OF ok] by (simp add: eq)
  have b: "\<forall>obj \<in> set arr.
            snd (parseJobs env [obj] []) =
              (if isString (atKey obj ''out'') then
                 [(parentJob env obj)\<lparr>job_out :=
                     correctUserInputPath env (toString (atKey obj ''out''))\<rparr>]
               else if isArray (atKey obj ''out'') then
                 map (partJob env (parentJob env obj)) (toArray (atKey obj ''out''))
               else [])"
    using ok by (simp add: parseJobs_single)
  have count: "length (filter (\<lambda>obj. isString (atKey obj ''out'') \<or> toArray (atKey obj ''out'') \<noteq> []) xs)
           \<le> length (concat (map (\<lambda>obj. snd (parseJobs env [obj] [])) xs))"
    if "\<forall>obj \<in> set xs. \<not> transposeFails env obj" for xs
    using that
  proof (induction xs)
    case Nil
    show ?case by simp
  next
    case (Cons x xs)
    have "toArray (atKey x ''out'') \<noteq> [] \<Longrightarrow> isArray (atKey x ''out'')"
      by (cases "atKey x ''out''") simp_all
    moreover have "toArray (atKey x ''out'') \<noteq> [] \<Longrightarrow> \<not> isString (atKey x ''out'')"
      by (cases "atKey x ''out''") simp_all
    moreover have "toArray (atKey x ''out'') \<noteq> [] \<Longrightarrow> 1 \<le> length (toArray (atKey x ''out''))"
      by (cases "toArray (atKey x ''out'')") simp_all
    ultimately show ?case
      using Cons by (auto simp: parseJobs_single)
  qed
  from a b count [OF ok] show ?thesis by simp
qed

theorem parseBatchJob_expansion_witness:
  "readAll sample_env ''multi.json'' = Some ''<multi>'' \<and>
   fromJson sample_env ''<multi>''
     = (\<lparr>noError = True, errorString = ''no error occurred''\<rparr>, JArray (toArray doc_multi)) \<and>
   success (fst (parseBatchJob sample_env ''multi.json'')) \<and>
   snd (parseBatchJob sample_env ''multi.json'') =
     [\<lparr>job_in = ''a.ext'', job_out = ''b.pdf'', transposeOptions = None\<rparr>,
      \<lparr>job_in = ''a.ext'', job_out = ''c.svg'', transposeOptions = None\<rparr>,
      \<lparr>job_in = ''d.ext'', job_out = ''e.pdf'', transposeOptions = None\<rparr>] \<and>
   snd (parseBatchJob sample_env ''multi.json'')
     = concat (map (\<lambda>obj. snd (parseJobs sample_env [obj] [])) (toArray doc_multi))"
proof -
  have h1: "readAll sample_env ''multi.json'' = Some ''<multi>''"
    by code_simp
  have h2: "fromJson sample_env ''<multi>''
     = (\<lparr>noError = True, errorString = ''no error occurred''\<rparr>, JArray (toArray doc_multi))"
    by code_simp
  have h3: "noError \<lparr>noError = True, errorString = ''no error occurred''\<rparr>"
    by simp
  have h4: "success (fst (parseBatchJob sample_env ''multi.json''))"
    by code_simp
  have v: "snd (parseBatchJob sample_env ''multi.json'') =
     [\<lparr>job_in = ''a.ext'', job_out = ''b.pdf'', transposeOptions = None\<rparr>,
      \<lparr>job_in = ''a.ext'', job_out = ''c.svg'', transposeOptions = None\<rparr>,
      \<lparr>job_in = ''d.ext'', job_out = ''e.pdf'', transposeOptions = None\<rparr>]"
    by code_simp
  show ?thesis
    using h1 h2 h4 v parseBatchJob_expansion [OF h1 h2 h3 h4] by simp
qed

section \<open>Facts about runs\<close>

lemma run_refl: "run s [] s"
  by (simp add: run_def)

lemma run_emit: "run s [e] (emit e s)"
  by (simp add: run_def emit_def)

lemma run_trans: "run s es s' \<Longrightarrow> run s' es' s'' \<Longrightarrow> run s (es @ es') s''"
  by (simp add: run_def)

lemma run_then_emit: "run s es s' \<Longrightarrow> run s (es @ [e]) (emit e s')"
  using run_trans [OF _ run_emit] by blast

lemma run_addedStamped: "run s es s' \<Longrightarrow> addedStamped s s' = map (Pair (currentProject s)) es"
  by (simp add: run_def addedStamped_def)

lemma run_added: "run s es s' \<Longrightarrow> added s s' = es"
  by (simp add: run_addedStamped added_def comp_def)


lemma openWriteClose_run:
  "\<exists>es. run s es (snd (openWriteClose env writer n path fileMeta opts s)) \<and>
     ((fst (openWriteClose env writer n path fileMeta opts s) = make_ret env Ok
         \<and> es = writeEvents writer n path fileMeta opts)
      \<or> (fst (openWriteClose env writer n path fileMeta opts s) = make_ret env OutFileFailedOpen
         \<and> es = [FileOpen path False])
      \<or> (fst (openWriteClose env writer n path fileMeta opts s) = make_ret env OutFileFailedWrite
         \<and> es = [FileOpen path True,
                  Write writer n \<lparr>filePath = path, meta = fileMeta\<rparr> opts False]))"
proof -
  let ?f = "\<lparr>filePath = path, meta = fileMeta\<rparr>"
  let ?s1 = "emit (FileOpen path True) s"
  consider (noopen) "\<not> fileOpen env s path"
    | (nowrite) "fileOpen env s path" "\<not> success (writerWrite env ?s1 writer n ?f opts)"
    | (ok) "fileOpen env s path" "success (writerWrite env ?s1 writer n ?f opts)"
    by blast
  then show ?thesis
  proof cases
    case noopen
    then have "openWriteClose env writer n path fileMeta opts s
                 = (make_ret env OutFileFailedOpen, emit (FileOpen path False) s)"
      by (simp add: openWriteClose_def)
    then show ?thesis using run_emit [of s "FileOpen path False"] by auto
  next
    case nowrite
    then have "openWriteClose env writer n path fileMeta opts s
                 = (make_ret env OutFileFailedWrite, emit (Write writer n ?f opts False) ?s1)"
      by (simp add: openWriteClose_def Let_def)
    moreover have "run s ([FileOpen path True] @ [Write writer n ?f opts False])
                     (emit (Write writer n ?f opts False) ?s1)"
      by (rule run_then_emit [OF run_emit])
    ultimately show ?thesis by auto
  next
    case ok
    then have "openWriteClose env writer n path fileMeta opts s
                 = (make_ret env Ok,
                    emit (FileClose path) (emit (Write writer n ?f opts True) ?s1))"
      by (simp add: openWriteClose_def Let_def)
    moreover have "run s (([FileOpen path True] @ [Write writer n ?f opts True]) @ [FileClose path])
                     (emit (FileClose path) (emit (Write writer n ?f opts True) ?s1))"
      by (rule run_then_emit [OF run_then_emit [OF run_emit]])
    ultimately show ?thesis by (auto simp: writeEvents_def)
  qed
qed

section \<open>Page-by-page conversion\<close>

lemma openedFiles_append: "openedFiles (es @ es') = openedFiles es @ openedFiles es'"
  by (induction es rule: openedFiles.induct) simp_all

lemma openedFiles_writeEvents [simp]:
  "openedFiles (writeEvents writer n path fileMeta opts) = [path]"
  by (simp add: writeEvents_def)



section \<open>Templated outputs\<close>

lemma convertScorePartsToPdf_loop_ok:
  "success (fst (convertScorePartsToPdf_loop env writer ns out s)) \<Longrightarrow>
     run s (concat (map (\<lambda>n. writeEvents writer n (partOutPath env out (name n) ''.pdf'') []
                                 [(UNIT_TYPE, ValUnitType PER_PART)]) ns))
       (snd (convertScorePartsToPdf_loop env writer ns out s))"
proof (induction ns arbitrary: s)
  case Nil
  show ?case by (simp add: run_refl)
next
  case (Cons n ns)
  let ?path = "partOutPath env out (name n) ''.pdf''"
  let ?opts = "[(UNIT_TYPE, ValUnitType PER_PART)]"
  let ?r = "openWriteClose env writer n ?path [] ?opts s"
  have ok: "success (fst ?r)"
    using Cons.prems by (cases "success (fst ?r)") (simp_all add: Let_def)
  then have eq: "convertScorePartsToPdf_loop env writer (n # ns) out s
                   = convertScorePartsToPdf_loop env writer ns out (snd ?r)"
    by (simp add: Let_def)
  from openWriteClose_run [of s env writer n ?path "[]" ?opts] ok
  have r1: "run s (writeEvents writer n ?path [] ?opts) (snd ?r)"
    by auto
  from Cons.prems have "success (fst (convertScorePartsToPdf_loop env writer ns out (snd ?r)))"
    by (simp only: eq)
  from run_trans [OF r1 Cons.IH [OF this]] show ?case
    by (simp only: eq) simp
qed

lemma replaceChar_only [simp]: "replaceChar [c] c new = new"
  by (simp add: replaceChar_def)

text \<open>
  C1, as stated, fails: the parser puts no dot between the placeholder and the suffix.
  The batch document \<^verbatim>\<open>[{"in":"a.ext","out":[["parts/","pdf"]]}]\<close> parses to the one job
  with the output \<^verbatim>\<open>parts/*pdf\<close>, which is not \<^verbatim>\<open>parts/*.pdf\<close>. In the sample environment
  that path has no suffix, so \<open>fileConvert\<close> finds no writer for it, and the per-part
  path for the part Violin would be \<^verbatim>\<open>parts/Violinpdf.pdf\<close>.
\<close>

theorem templated_output_counterexample:
  "parseBatchJob sample_env ''parts.json''
     = (make_ret sample_env Ok,
        [\<lparr>job_in = ''a.ext'', job_out = ''parts/*pdf'', transposeOptions = None\<rparr>]) \<and>
   ''parts/*pdf'' \<noteq> ''parts/'' @ ''*'' @ ''.'' @ ''pdf'' \<and>
   partOutPath sample_env ''parts/*pdf'' ''Violin'' ''.pdf'' = ''parts/Violinpdf.pdf'' \<and>
   fileConvert sample_env ''a.ext'' ''parts/*pdf'' [] False [] [] None idle
     = (make_ret sample_env ConvertTypeUnknown, idle)"
  by code_simp

text \<open>
  C1, amended. For a two-element array \<^verbatim>\<open>[prefix, suffix]\<close> in an array-valued \<^verbatim>\<open>out\<close> the
  job's output path is the normalised prefix, the placeholder \<^verbatim>\<open>*\<close> and the suffix as it
  is written, with nothing between them. When the per-part PDF conversion succeeds it
  opens, for each part in order, the file in the directory of the template whose name
  is the template's base name with the placeholder replaced by the part's name,
  followed by \<^verbatim>\<open>.pdf\<close>. So for the element \<^verbatim>\<open>["parts/", ".pdf"]\<close> (the suffix written with
  its dot) and the parts Violin and Cello, the files are \<^verbatim>\<open>parts/Violin.pdf\<close> and
  \<^verbatim>\<open>parts/Cello.pdf\<close>, given path helpers that split \<^verbatim>\<open>parts/*.pdf\<close> into the directory
  \<^verbatim>\<open>parts\<close> and the base name \<^verbatim>\<open>*\<close>.
\<close>

theorem templated_output:
  "job_out (partJob env j (JArray [a, b]))
     = correctUserInputPath env (toString a) @ ''*'' @ toString b \<and>
   parseJobs env [JObject [(''in'', JString i),
                           (''out'', JArray [JArray [JString p, JString x]])]] []
     = (make_ret env Ok,
        [\<lparr>job_in = correctUserInputPath env i,
          job_out = correctUserInputPath env p @ ''*'' @ x,
          transposeOptions = None\<rparr>]) \<and>
   (success (fst (convertScorePartsToPdf env writer m out s)) \<longrightarrow>
      openedFiles (added s (snd (convertScorePartsToPdf env writer m out s)))
        = map (\<lambda>n. io_dirpath env out @ ''/''
                     @ replaceChar (io_completeBasename env out) CHR ''*'' (name n) @ ''.pdf'')
            (excerpts m)) \<and>
   (fromNativeSeparators env ''parts/'' = ''parts/'' \<and>
    io_dirpath env ''parts/*.pdf'' = ''parts'' \<and>
    io_completeBasename env ''parts/*.pdf'' = ''*'' \<and>
    map name (excerpts m) = [''Violin'', ''Cello''] \<and>
    success (fst (convertScorePartsToPdf env writer m
                    (correctUserInputPath env ''parts/'' @ ''*'' @ ''.pdf'') s)) \<longrightarrow>
      openedFiles (added s (snd (convertScorePartsToPdf env writer m
                                   (correctUserInputPath env ''parts/'' @ ''*'' @ ''.pdf'') s)))
        = [''parts/Violin.pdf'', ''parts/Cello.pdf''])"
proof -
  have a: "job_out (partJob env j (JArray [a, b]))
     = correctUserInputPath env (toString a) @ ''*'' @ toString b"
    by (simp add: partJob_def)
  have b: "parseJobs env [JObject [(''in'', JString i),
                           (''out'', JArray [JArray [JString p, JString x]])]] []
     = (make_ret env Ok,
        [\<lparr>job_in = correctUserInputPath env i,
          job_out = correctUserInputPath env p @ ''*'' @ x,
          transposeOptions = None\<rparr>])"
    by (simp add: parseJobs.simps(2) atKey_def partJob_def Let_def)
  have c: "openedFiles (added s (snd (convertScorePartsToPdf env writer m out s)))
        = map (\<lambda>n. io_dirpath env out @ ''/''
                     @ replaceChar (io_completeBasename env out) CHR ''*'' (name n) @ ''.pdf'')
            (excerpts m)"
    if "success (fst (convertScorePartsToPdf env writer m out s))" for out
  proof -
    have "openedFiles (concat (map (\<lambda>n. writeEvents writer n (partOutPath env out (name n) ''.pdf'') []
                                 [(UNIT_TYPE, ValUnitType PER_PART)]) ns))
            = map (\<lambda>n. partOutPath env out (name n) ''.pdf'') ns" for ns
      by (induction ns) (simp_all add: openedFiles_append)
    with run_added [OF convertScorePartsToPdf_loop_ok [of env writer "excerpts m" out s]] that
    show ?thesis by (simp add: convertScorePartsToPdf_def partOutPath_def)
  qed
  have d: "openedFiles (added s (snd (convertScorePartsToPdf env writer m
                                   (correctUserInputPath env ''parts/'' @ ''*'' @ ''.pdf'') s)))
        = [''parts/Violin.pdf'', ''parts/Cello.pdf'']"
    if h: "fromNativeSeparators env ''parts/'' = ''parts/''"
        "io_dirpath env ''parts/*.pdf'' = ''parts''"
        "io_completeBasename env ''parts/*.pdf'' = ''*''"
        "map name (excerpts m) = [''Violin'', ''Cello'']"
        "success (fst (convertScorePartsToPdf env writer m
                    (correctUserInputPath env ''parts/'' @ ''*'' @ ''.pdf'') s))"
  proof -
    have t: "correctUserInputPath env ''parts/'' @ ''*'' @ ''.pdf'' = ''parts/*.pdf''"
      using h(1) by (simp add: correctUserInputPath_def)
    from h(4) obtain n1 n2 where ns: "excerpts m = [n1, n2]" "name n1 = ''Violin''" "name n2 = ''Cello''"
      by auto
    from c [OF h(5)]
    have "openedFiles (added s (snd (convertScorePartsToPdf env writer m ''parts/*.pdf'' s)))
        = map (\<lambda>n. io_dirpath env ''parts/*.pdf'' @ ''/''
                     @ replaceChar (io_completeBasename env ''parts/*.pdf'') CHR ''*'' (name n)
                     @ ''.pdf'')
            (excerpts m)"
      unfolding t .
    then show ?thesis
      unfolding t by (simp add: h(2,3) ns)
  qed
  show ?thesis
  proof (intro conjI impI)
    show "job_out (partJob env j (JArray [a, b]))
            = correctUserInputPath env (toString a) @ ''*'' @ toString b"
      by (rule a)
    show "parseJobs env [JObject [(''in'', JString i),
                           (''out'', JArray [JArray [JString p, JString x]])]] []
     = (make_ret env Ok,
        [\<lparr>job_in = correctUserInputPath env i,
          job_out = correctUserInputPath env p @ ''*'' @ x,
          transposeOptions = None\<rparr>])"
      by (rule b)
    show "openedFiles (added s (snd (convertScorePartsToPdf env writer m out s)))
        = map (\<lambda>n. io_dirpath env out @ ''/''
                     @ replaceChar (io_completeBasename env out) CHR ''*'' (name n) @ ''.pdf'')
            (excerpts m)"
      if "success (fst (convertScorePartsToPdf env writer m out s))"
      using that by (rule c)
    show "openedFiles (added s (snd (convertScorePartsToPdf env writer m
                                   (correctUserInputPath env ''parts/'' @ ''*'' @ ''.pdf'') s)))
        = [''parts/Violin.pdf'', ''parts/Cello.pdf'']"
      if "fromNativeSeparators env ''parts/'' = ''parts/'' \<and>
          io_dirpath env ''parts/*.pdf'' = ''parts'' \<and>
          io_completeBasename env ''parts/*.pdf'' = ''*'' \<and>
          map name (excerpts m) = [''Violin'', ''Cello''] \<and>
          success (fst (convertScorePartsToPdf env writer m
                    (correctUserInputPath env ''parts/'' @ ''*'' @ ''.pdf'') s))"
    proof -
      from that have h: "fromNativeSeparators env ''parts/'' = ''parts/''"
          "io_dirpath env ''parts/*.pdf'' = ''parts''"
          "io_completeBasename env ''parts/*.pdf'' = ''*''"
          "map name (excerpts m) = [''Violin'', ''Cello'']"
          "success (fst (convertScorePartsToPdf env writer m
                    (correctUserInputPath env ''parts/'' @ ''*'' @ ''.pdf'') s))"
        by simp_all
      from h show ?thesis by (rule d)
    qed
  qed
qed

theorem templated_output_witness:
  "fromNativeSeparators sample_env ''parts/'' = ''parts/'' \<and>
   io_dirpath sample_env ''parts/*.pdf'' = ''parts'' \<and>
   io_completeBasename sample_env ''parts/*.pdf'' = ''*'' \<and>
   map name (excerpts (projectMasterNotation sample_project)) = [''Violin'', ''Cello''] \<and>
   success (fst (convertScorePartsToPdf sample_env 1 (projectMasterNotation sample_project)
                   (correctUserInputPath sample_env ''parts/'' @ ''*'' @ ''.pdf'') idle)) \<and>
   openedFiles (added idle (snd (convertScorePartsToPdf sample_env 1
       (projectMasterNotation sample_project)
       (correctUserInputPath sample_env ''parts/'' @ ''*'' @ ''.pdf'') idle)))
     = [''parts/Violin.pdf'', ''parts/Cello.pdf'']"
proof -
  have h1: "fromNativeSeparators sample_env ''parts/'' = ''parts/''"
    by code_simp
  have h2: "io_dirpath sample_env ''parts/*.pdf'' = ''parts''"
    by code_simp
  have h3: "io_completeBasename sample_env ''parts/*.pdf'' = ''*''"
    by code_simp
  have h4: "map name (excerpts (projectMasterNotation sample_project)) = [''Violin'', ''Cello'']"
    by code_simp
  have h5: "success (fst (convertScorePartsToPdf sample_env 1 (projectMasterNotation sample_project)
                   (correctUserInputPath sample_env ''parts/'' @ ''*'' @ ''.pdf'') idle))"
    by code_simp
  show ?thesis
    using h1 h2 h3 h4 h5
      templated_output [of sample_env "\<lparr>job_in = [], job_out = [], transposeOptions = None\<rparr>"
        "JString ''parts/''" "JString ''.pdf''" "''a.ext''" "''parts/''" "''.pdf''" 1
        "projectMasterNotation sample_project" "''parts/*.pdf''" idle]
    by simp
qed

section \<open>The events of the strategy branch\<close>














section \<open>The current project\<close>


lemma fileConvert_registered:
  assumes "writers env (io_suffix env out) = Some writer"
    and "newProject env s = Some created"
    and "success (fst (load env (emit (NewProject True) s) created inp stylePath forceMode))"
    and "\<forall>opts. transposeOpts = Some opts \<longrightarrow>
           success (applyTranspose env (prepared inp stylePath forceMode soundProfile None s)
                      (mnotation (projectMasterNotation
                         (snd (load env (emit (NewProject True) s) created inp stylePath forceMode))))
                      opts)"
  shows "fileConvert env inp out stylePath forceMode soundProfile extensionUri transposeOpts s =
           fileConvert_scoped env writer
             (snd (load env (emit (NewProject True) s) created inp stylePath forceMode))
             out extensionUri (prepared inp stylePath forceMode soundProfile transposeOpts s)"
  using assms
  by (cases transposeOpts; cases "soundProfile = []")
     (simp_all add: fileConvert_def prepared_def Let_def)





section \<open>The precedence of the strategies\<close>

text \<open>
  C3, as stated, fails where it says that the native save bypasses the writer registry
  entirely: the registry is asked for a writer of the suffix before anything else, and a
  job without one never reaches the strategy branch. In the sample environment no
  writer is registered for \<^verbatim>\<open>mscx\<close>: the job with the output \<^verbatim>\<open>score.mscx\<close> (a native suffix,
  no placeholder, no extension) ends with \<open>ConvertTypeUnknown\<close>, and nothing is loaded or
  saved.
\<close>

theorem fileConvert_native_counterexample:
  "io_suffix sample_env ''score.mscx'' = MSCX \<and>
   CHR ''*'' \<notin> set (io_completeBasename sample_env ''score.mscx'') \<and>
   isValid sample_env [] = False \<and>
   fileConvert sample_env ''a.mscz'' ''score.mscx'' [] False [] [] None idle
     = (make_ret sample_env ConvertTypeUnknown, idle)"
  by code_simp

text \<open>
  C3, amended. For a job that has a registered writer for its output suffix and whose
  project is created, loaded and (when asked for) transposed without failure,
  \<open>fileConvert\<close> registers the project, chooses the strategy by the fixed precedence
  below, and resets the current project: per-part conversion when the base name of the
  output contains \<^verbatim>\<open>*\<close>; else the extension followed by one whole-document write when the
  extension URI is valid; else the project's own save, without any call of the writer,
  when the suffix is \<^verbatim>\<open>mscz\<close>, \<^verbatim>\<open>mscx\<close> or \<^verbatim>\<open>mscs\<close>; else page-by-page conversion when the
  suffix is \<^verbatim>\<open>png\<close> or \<^verbatim>\<open>svg\<close>; else one whole-document conversion.
\<close>

theorem fileConvert_strategy:
  assumes "writers env (io_suffix env out) = Some writer"
    and "newProject env s = Some created"
    and "load env (emit (NewProject True) s) created inp stylePath forceMode = (lr, project)"
    and "success lr"
    and "\<forall>opts. transposeOpts = Some opts \<longrightarrow>
           success (applyTranspose env (prepared inp stylePath forceMode soundProfile None s)
                      (mnotation (projectMasterNotation project)) opts)"
  shows "fileConvert env inp out stylePath forceMode soundProfile extensionUri transposeOpts s =
           (let s5 = setCurrentProject (Some project)
                       (prepared inp stylePath forceMode soundProfile transposeOpts s);
                n = mnotation (projectMasterNotation project);
                r = (if CHR ''*'' \<in> set (io_completeBasename env out) then
                       convertScoreParts env writer (projectMasterNotation project) out s5
                     else if isValid env extensionUri then
                       convertByExtension env writer n out extensionUri s5
                     else if io_suffix env out \<in> {MSCZ, MSCX, MSCS} then
                       (save env s5 project out,
                        emit (Save out (success (save env s5 project out))) s5)
                     else if io_suffix env out \<in> {PNG_SUFFIX, SVG_SUFFIX} then
                       convertPageByPage env writer n out s5
                     else convertFullNotation env writer n out s5)
            in (fst r, setCurrentProject None (snd r))) \<and>
         convertByExtension env writer n' out extensionUri s' =
           (let r = perform env s' extensionUri;
                s1 = emit (Perform extensionUri (success r)) s'
            in if success r then convertFullNotation env writer n' out s1 else (r, s1))"
proof -
  have l: "success (fst (load env (emit (NewProject True) s) created inp stylePath forceMode))"
    using assms(3,4) by simp
  have t: "\<forall>opts. transposeOpts = Some opts \<longrightarrow>
                    success (applyTranspose env (prepared inp stylePath forceMode soundProfile None s)
                      (mnotation (projectMasterNotation
                         (snd (load env (emit (NewProject True) s) created inp stylePath forceMode))))
                      opts)"
    using assms(3,5) by simp
  have a: "fileConvert env inp out stylePath forceMode soundProfile extensionUri transposeOpts s =
           fileConvert_scoped env writer project out extensionUri
             (prepared inp stylePath forceMode soundProfile transposeOpts s)"
    using fileConvert_registered [OF assms(1,2) l t, of extensionUri] assms(3) by simp
  have b: "convertByExtension env writer n' out extensionUri s' =
           (let r = perform env s' extensionUri;
                s1 = emit (Perform extensionUri (success r)) s'
            in if success r then convertFullNotation env writer n' out s1 else (r, s1))"
    by (simp add: convertByExtension_def convertFullNotation_def Let_def)
  show ?thesis
    unfolding a
    by (rule conjI [OF _ b])
       (simp add: fileConvert_scoped_def fileConvert_dispatch_def isConvertPageByPage_def Let_def)
qed

theorem fileConvert_strategy_witness:
  "writers sample_env (io_suffix sample_env ''score.mscz'') = Some 5 \<and>
   newProject sample_env idle = Some empty_project \<and>
   load sample_env (emit (NewProject True) idle) empty_project ''a.mscz'' [] False
     = (\<lparr>code = Ok, msg = []\<rparr>, sample_project) \<and>
   success \<lparr>code = Ok, msg = []\<rparr> \<and>
   fileConvert sample_env ''a.mscz'' ''score.mscz'' [] False [] [] None idle
     = (\<lparr>code = Ok, msg = []\<rparr>,
        \<lparr>currentProject = None,
         trace = [(None, NewProject True),
                  (None, Load ''a.mscz'' [] False True),
                  (None, SetCurrentProject (Some sample_project)),
                  (Some sample_project, Save ''score.mscz'' True),
                  (Some sample_project, SetCurrentProject None)]\<rparr>)"
proof -
  have h1: "writers sample_env (io_suffix sample_env ''score.mscz'') = Some 5"
    by code_simp
  have h2: "newProject sample_env idle = Some empty_project"
    by code_simp
  have h3: "load sample_env (emit (NewProject True) idle) empty_project ''a.mscz'' [] False
     = (\<lparr>code = Ok, msg = []\<rparr>, sample_project)"
    by code_simp
  have h4: "success \<lparr>code = Ok, msg = []\<rparr>"
    by code_simp
  have h5: "\<forall>opts. (None :: transposeOptions option) = Some opts \<longrightarrow>
           success (applyTranspose sample_env (prepared ''a.mscz'' [] False [] None idle)
                      (mnotation (projectMasterNotation sample_project)) opts)"
    by simp
  have v: "fileConvert sample_env ''a.mscz'' ''score.mscz'' [] False [] [] None idle
     = (\<lparr>code = Ok, msg = []\<rparr>,
        \<lparr>currentProject = None,
         trace = [(None, NewProject True),
                  (None, Load ''a.mscz'' [] False True),
                  (None, SetCurrentProject (Some sample_project)),
                  (Some sample_project, Save ''score.mscz'' True),
                  (Some sample_project, SetCurrentProject None)]\<rparr>)"
    by code_simp
  show ?thesis
    using h1 h2 h3 h4 v fileConvert_strategy [OF h1 h2 h3 h4 h5, of "[]"
        "mnotation (projectMasterNotation sample_project)" idle]
    by simp
qed

section \<open>The batch runner collects failures\<close>

lemma length_jobResults [simp]:
  "length (jobResults env jobs stylePath forceMode soundProfile extensionUri progress current
             totalJobs s) = length jobs"
  by (induction jobs arbitrary: current s) (simp_all add: Let_def)








section \<open>The sample formatter fills markers\<close>










section \<open>Page-by-page conversion, collaborator by collaborator\<close>

lemma after_Nil [simp]: "after s [] = s"
  by (simp add: after_def)


lemma emit_after: "emit e s = after s [e]"
  by (simp add: emit_def after_def)

lemma added_after [simp]: "added s (after s es) = es"
  by (simp add: added_def addedStamped_def after_def comp_def)











section \<open>The result of a batch\<close>






end
